theory Spec2Isabelle
  imports Main "HOL-Library.Word"
begin

section \<open>android-base/result.h\<close>

text \<open>
  The platform's \<^verbatim>\<open>int\<close>, the type of \<^verbatim>\<open>errno\<close>: 32 bits, read as a signed number by
  \<open>sint\<close>. No arithmetic is done on it here.
\<close>

type_synonym c_int = "32 word"

subsection \<open>Errno\<close>

text \<open>
  \<^verbatim>\<open>struct Errno { Errno() : val_(0) {}  Errno(int e) : val_(e) {}  int val_; ... }\<close>.
  \<^verbatim>\<open>print()\<close> is \<^verbatim>\<open>strerror(value())\<close>; \<^verbatim>\<open>strerror\<close> belongs to the platform and is a
  parameter of the model. The field \<^verbatim>\<open>val_\<close> is written \<open>m_val\<close> (a name cannot end in an
  underscore here).
\<close>

datatype Errno = Errno (m_val: c_int)

definition Errno_default :: Errno where
  "Errno_default = Errno 0"

definition Errno_value :: "Errno \<Rightarrow> c_int" where
  "Errno_value e = m_val e"

definition Errno_int :: "Errno \<Rightarrow> c_int" where
  "Errno_int e = Errno_value e"

definition Errno_print :: "(c_int \<Rightarrow> string) \<Rightarrow> Errno \<Rightarrow> string" where
  "Errno_print strerror e = strerror (Errno_value e)"

subsection \<open>ResultError\<close>

text \<open>
  \<^verbatim>\<open>ResultError<E>\<close>: the private fields \<^verbatim>\<open>message_\<close>, \<^verbatim>\<open>code_\<close> are read through
  \<^verbatim>\<open>message()\<close> and \<^verbatim>\<open>code()\<close>. \<^verbatim>\<open>operator==\<close> compares both fields, which is the
  equality of the datatype.
\<close>

datatype 'e ResultError = ResultError (message: string) (code: 'e)

subsection \<open>expected and Result\<close>

text \<open>
  Modelled from the spec: \<^verbatim>\<open>android-base/expected.h\<close> is not among the sources. The spec
  takes it as a primitive that holds a value or else an error; \<^verbatim>\<open>error()\<close> needs
  \<^verbatim>\<open>ok() == false\<close> and \<^verbatim>\<open>value()\<close> needs \<^verbatim>\<open>ok() == true\<close>, so both are partial here.
\<close>

datatype ('t, 'x) expected = Value 't | Unexpected 'x

fun ok :: "('t, 'x) expected \<Rightarrow> bool" where
  "ok (Value v) = True"
| "ok (Unexpected x) = False"

fun error :: "('t, 'x) expected \<Rightarrow> 'x option" where
  "error (Value v) = None"
| "error (Unexpected x) = Some x"

fun value_of :: "('t, 'x) expected \<Rightarrow> 't option" where
  "value_of (Value v) = Some v"
| "value_of (Unexpected x) = None"

text \<open>\<^verbatim>\<open>template <typename T, typename E = Errno> using Result = expected<T, ResultError<E>>\<close>\<close>

type_synonym ('t, 'e) Result = "('t, 'e ResultError) expected"

text \<open>\<^verbatim>\<open>ResultError::operator expected<T, ResultError<E>>()\<close>\<close>

definition ResultError_to_expected :: "'e ResultError \<Rightarrow> ('t, 'e) Result" where
  "ResultError_to_expected r = Unexpected (ResultError (message r) (code r))"

subsection \<open>The string stream\<close>

text \<open>
  The builder's member \<^verbatim>\<open>ss_\<close> is a \<^verbatim>\<open>std::stringstream\<close> of the C++ library. The model keeps
  of its state what decides whether and how the insertion of a \<^verbatim>\<open>std::string\<close> changes the
  text: the character sequence (what \<^verbatim>\<open>str()\<close> returns), the put position, whether the
  stream is good (neither \<^verbatim>\<open>failbit\<close> nor \<^verbatim>\<open>badbit\<close> nor \<^verbatim>\<open>eofbit\<close> is set), the pending
  field width, the fill character, and whether the adjustment is to the left. An insertion
  is taken to return: a stream made to throw on failure, and a failure to allocate, are not
  modelled.
\<close>

record sstream =
  chars :: string
  ppos :: nat
  is_good :: bool
  fmt_width :: nat
  fmt_fill :: char
  fmt_left :: bool

text \<open>A stream as its default constructor leaves it.\<close>

definition sstream_new :: sstream where
  "sstream_new =
     \<lparr>chars = [], ppos = 0, is_good = True, fmt_width = 0, fmt_fill = CHR '' '',
      fmt_left = False\<rparr>"

text \<open>
  \<^verbatim>\<open>ss << s\<close> for a \<^verbatim>\<open>std::string\<close> \<open>s\<close>, a formatted output function of the library: on a
  stream that is not good nothing is inserted (\<^verbatim>\<open>failbit\<close> is set, and the stream stays not
  good); otherwise \<open>s\<close>, padded with the fill character up to the field width, is written at
  the put position, and the field width is reset to 0.
\<close>

definition put_string :: "string \<Rightarrow> sstream \<Rightarrow> sstream" where
  "put_string s ss =
     (if \<not> is_good ss then ss
      else
        let pad = replicate (fmt_width ss - length s) (fmt_fill ss);
            out = (if fmt_left ss then s @ pad else pad @ s)
        in ss\<lparr>chars := take (ppos ss) (chars ss) @ out @ drop (ppos ss + length out) (chars ss),
              ppos := ppos ss + length out,
              fmt_width := 0\<rparr>)"

subsection \<open>The Error builder\<close>

text \<open>
  \<^verbatim>\<open>class Error\<close> with its three fields \<^verbatim>\<open>ss_\<close>, \<^verbatim>\<open>code_\<close> and \<^verbatim>\<open>has_code_\<close>, written
  \<open>m_ss\<close>, \<open>m_code\<close> and \<open>m_has_code\<close> (a name cannot end in an underscore here).
  \<^verbatim>\<open>ss_.str()\<close> is \<open>chars (m_ss b)\<close>. \<^verbatim>\<open>has_code_\<close> is declared \<^verbatim>\<open>const bool\<close>.
\<close>

record 'e Error =
  m_ss :: sstream
  m_code :: 'e
  m_has_code :: bool

text \<open>
  \<^verbatim>\<open>Error() : code_(0), has_code_(false)\<close>. The argument is \<^verbatim>\<open>E(0)\<close>, the code type's
  value built from the literal 0.
\<close>

definition Error_default :: "'e \<Rightarrow> 'e Error" where
  "Error_default zero = \<lparr>m_ss = sstream_new, m_code = zero, m_has_code = False\<rparr>"

text \<open>\<^verbatim>\<open>Error(P&& code) : code_(std::forward<P>(code)), has_code_(true)\<close>\<close>

definition Error_of_code :: "'e \<Rightarrow> 'e Error" where
  "Error_of_code c = \<lparr>m_ss = sstream_new, m_code = c, m_has_code = True\<rparr>"

text \<open>\<^verbatim>\<open>str()\<close>; the first argument is the code type's \<^verbatim>\<open>print()\<close>.\<close>

definition str :: "('e \<Rightarrow> string) \<Rightarrow> 'e Error \<Rightarrow> string" where
  "str print b =
     (let s = chars (m_ss b) in
      if m_has_code b then
        (if s = [] then print (m_code b)
         else s @ '': '' @ print (m_code b))
      else s)"

text \<open>
  \<^verbatim>\<open>operator expected<T, ResultError<P>>()\<close>: \<^verbatim>\<open>cast\<close> is \<^verbatim>\<open>static_cast<P>\<close> on the code
  (the identity when \<^verbatim>\<open>P\<close> is \<^verbatim>\<open>E\<close>).
\<close>

definition to_expected ::
  "('e \<Rightarrow> string) \<Rightarrow> ('e \<Rightarrow> 'p) \<Rightarrow> 'e Error \<Rightarrow> ('t, 'p) Result" where
  "to_expected print cast b = Unexpected (ResultError (str print b) (cast (m_code b)))"

text \<open>
  What \<^verbatim>\<open>operator<<\<close> and \<^verbatim>\<open>ErrorCode\<close> tell apart at compile time: an operand of type
  \<^verbatim>\<open>ResultError<E>\<close>, or one of any other type. The latter is given by what inserting it
  does to the stream, which is any function on the stream's state (text of any kind, a
  manipulator such as \<^verbatim>\<open>std::setw\<close>, an insertion that fails), and by what inserting it
  does to \<^verbatim>\<open>errno\<close>.
\<close>

datatype 'e arg =
  ResultErrorArg "'e ResultError" | OtherArg "sstream \<Rightarrow> sstream" "c_int \<Rightarrow> c_int"

text \<open>
  The unconstrained part of \<^verbatim>\<open>operator<<\<close>:
  \<^verbatim>\<open>int saved = errno; ss_ << t; errno = saved; return *this;\<close>
  The state is the builder and \<^verbatim>\<open>errno\<close>; \<open>ins\<close> and \<open>touch\<close> are what \<^verbatim>\<open>ss_ << t\<close> does to
  the stream and to \<^verbatim>\<open>errno\<close>.
\<close>

definition shl_other ::
  "'e Error \<times> c_int \<Rightarrow> (sstream \<Rightarrow> sstream) \<Rightarrow> (c_int \<Rightarrow> c_int) \<Rightarrow> 'e Error \<times> c_int" where
  "shl_other st ins touch =
     (case st of (b, errno) \<Rightarrow>
        let saved = errno;
            b1 = b\<lparr>m_ss := ins (m_ss b)\<rparr>;
            errno1 = touch errno;
            errno2 = saved
        in (b1, errno2))"

text \<open>
  What the operations that the \<^verbatim>\<open>ResultError<E>\<close> part of \<^verbatim>\<open>operator<<\<close> runs do to
  \<^verbatim>\<open>errno\<close>: the copy assignment of the code type \<open>E\<close> (given the code assigned), the
  construction of the \<^verbatim>\<open>std::string\<close> that \<^verbatim>\<open>t.message()\<close> returns (given the message), the
  insertion of a \<^verbatim>\<open>std::string\<close> into the stream, and the destruction of a \<^verbatim>\<open>std::string\<close>.
  They belong to the code type and to the library, and are parameters.
\<close>

record 'e effects =
  code_assign :: "'e \<Rightarrow> c_int \<Rightarrow> c_int"
  message_copy :: "string \<Rightarrow> c_int \<Rightarrow> c_int"
  string_put :: "c_int \<Rightarrow> c_int"
  string_destroy :: "c_int \<Rightarrow> c_int"

text \<open>
  \<^verbatim>\<open>operator<<\<close>. For a \<^verbatim>\<open>ResultError<E>\<close>:
  \<^verbatim>\<open>if (!has_code_) { code_ = t.code(); }  return (*this) << t.message();\<close>
  The assignment and the construction of the temporary \<^verbatim>\<open>t.message()\<close> come before the
  inner call saves \<^verbatim>\<open>errno\<close>, and the temporary is destroyed after the inner call has
  restored it.
\<close>

fun shl :: "'e effects \<Rightarrow> 'e Error \<times> c_int \<Rightarrow> 'e arg \<Rightarrow> 'e Error \<times> c_int" where
  "shl fx (b, errno) (ResultErrorArg t) =
     (let (b1, errno1) =
            (if \<not> m_has_code b then (b\<lparr>m_code := code t\<rparr>, code_assign fx (code t) errno)
             else (b, errno));
          errno2 = message_copy fx (message t) errno1;
          (b2, errno3) = shl_other (b1, errno2) (put_string (message t)) (string_put fx);
          errno4 = string_destroy fx errno3
      in (b2, errno4))"
| "shl fx (b, errno) (OtherArg ins touch) = shl_other (b, errno) ins touch"

declare shl.simps(1) [simp del]

text \<open>A chain \<^verbatim>\<open>b << t1 << t2 << ...\<close>, left to right.\<close>

fun shl_all :: "'e effects \<Rightarrow> 'e Error \<times> c_int \<Rightarrow> 'e arg list \<Rightarrow> 'e Error \<times> c_int" where
  "shl_all fx st [] = st"
| "shl_all fx st (t # ts) = shl_all fx (shl fx st t) ts"

text \<open>
  The private constructor
  \<^verbatim>\<open>Error(bool has_code, E code, const std::string& message) : code_(code),
  has_code_(has_code) { (*this) << message; }\<close>. Its \<^verbatim>\<open>operator<<\<close> is the unconstrained part,
  on a \<^verbatim>\<open>std::string\<close>; \<open>sput\<close> is what that insertion does to \<^verbatim>\<open>errno\<close>.
\<close>

definition Error_private ::
  "(c_int \<Rightarrow> c_int) \<Rightarrow> bool \<Rightarrow> 'e \<Rightarrow> string \<Rightarrow> c_int \<Rightarrow> 'e Error \<times> c_int" where
  "Error_private sput has_code c msg errno =
     shl_other (\<lparr>m_ss = sstream_new, m_code = c, m_has_code = has_code\<rparr>, errno)
       (put_string msg) sput"

subsection \<open>Factories\<close>

text \<open>\<^verbatim>\<open>ErrnoError() { return Error<Errno>(Errno{errno}); }\<close>, given the current \<^verbatim>\<open>errno\<close>.\<close>

definition ErrnoError :: "c_int \<Rightarrow> Errno Error" where
  "ErrnoError errno = Error_of_code (Errno errno)"

text \<open>\<^verbatim>\<open>ErrorCode(code, args...)\<close>: both overloads.\<close>

fun ErrorCode :: "'e \<Rightarrow> 'e arg list \<Rightarrow> 'e" where
  "ErrorCode c [] = c"
| "ErrorCode c (ResultErrorArg t # args) = ErrorCode (code t) args"
| "ErrorCode c (OtherArg ins touch # args) = ErrorCode c args"

text \<open>
  \<^verbatim>\<open>ErrorfImpl(fmt, args...)\<close>:
  \<^verbatim>\<open>return Error(false, ErrorCode(Errno{}, args...), fmt::format(fmt, args...));\<close>
  \<^verbatim>\<open>fmt::format\<close> is the formatting library's and a parameter here: it yields the
  rendered text and may change \<^verbatim>\<open>errno\<close>.
\<close>

definition ErrorfImpl ::
  "(string \<Rightarrow> Errno arg list \<Rightarrow> c_int \<Rightarrow> string \<times> c_int) \<Rightarrow> (c_int \<Rightarrow> c_int) \<Rightarrow>
   string \<Rightarrow> Errno arg list \<Rightarrow> c_int \<Rightarrow> Errno Error \<times> c_int" where
  "ErrorfImpl fmt_format sput fmt args errno =
     (case fmt_format fmt args errno of (msg, errno1) \<Rightarrow>
        Error_private sput False (ErrorCode Errno_default args) msg errno1)"

subsection \<open>OkOrFail for Result\<close>

text \<open>
  \<^verbatim>\<open>struct OkOrFail<Result<T, E>> { V val_; ... }\<close>, its field written \<open>OkOrFail_val\<close>.
  \<^verbatim>\<open>Fail\<close> asserts \<^verbatim>\<open>!IsOk(v)\<close>; a failed assertion, and \<^verbatim>\<open>error()\<close> on a value, give
  \<open>None\<close>.
\<close>

datatype ('t, 'e) OkOrFail = OkOrFail (OkOrFail_val: "('t, 'e) Result")

definition IsOk :: "('t, 'e) Result \<Rightarrow> bool" where
  "IsOk val = ok val"

definition Unwrap :: "('t, 'e) Result \<Rightarrow> 't option" where
  "Unwrap val = value_of val"

definition Fail :: "('t, 'e) Result \<Rightarrow> ('t, 'e) OkOrFail option" where
  "Fail v = (if \<not> IsOk v then Some (OkOrFail v) else None)"

text \<open>\<^verbatim>\<open>operator S() && { return val_.error().code(); }\<close>, \<^verbatim>\<open>cast\<close> converting E to S.\<close>

definition OkOrFail_to_S :: "('e \<Rightarrow> 's) \<Rightarrow> ('t, 'e) OkOrFail \<Rightarrow> 's option" where
  "OkOrFail_to_S cast f = map_option (\<lambda>e. cast (code e)) (error (OkOrFail_val f))"

text \<open>\<^verbatim>\<open>operator Result<U, E>() && { return val_.error(); }\<close>\<close>

definition OkOrFail_to_Result :: "('t, 'e) OkOrFail \<Rightarrow> ('u, 'e) Result option" where
  "OkOrFail_to_Result f = map_option ResultError_to_expected (error (OkOrFail_val f))"

definition ErrorMessage :: "('t, 'e) Result \<Rightarrow> string option" where
  "ErrorMessage val = map_option message (error val)"

section \<open>android-base/strings.h\<close>

text \<open>
  \<^verbatim>\<open>Trim\<close> works on a \<^verbatim>\<open>std::string_view\<close> of its argument, here the list of its bytes.
  \<^verbatim>\<open>isspace\<close> of \<^verbatim>\<open><ctype.h>\<close> depends on the locale and is a parameter, taken as defined
  on every byte (C leaves it undefined on a negative argument, which a byte above 127 is
  where \<^verbatim>\<open>char\<close> is signed). The first loop:
  \<^verbatim>\<open>while (!sv.empty() && isspace(sv.front())) sv.remove_prefix(1);\<close>
\<close>

fun skip_initial :: "(char \<Rightarrow> bool) \<Rightarrow> string \<Rightarrow> string" where
  "skip_initial isspace [] = []"
| "skip_initial isspace (c # sv) = (if isspace c then skip_initial isspace sv else c # sv)"

text \<open>
  The second loop:
  \<^verbatim>\<open>while (!sv.empty() && isspace(sv.back())) sv.remove_suffix(1);\<close>
\<close>

function skip_terminating :: "(char \<Rightarrow> bool) \<Rightarrow> string \<Rightarrow> string" where
  "skip_terminating isspace sv =
     (if sv \<noteq> [] \<and> isspace (last sv) then skip_terminating isspace (butlast sv) else sv)"
  by pat_completeness auto
termination
  by (relation "measure (\<lambda>(isspace, sv). length sv)") auto

declare skip_terminating.simps [simp del]

definition Trim :: "(char \<Rightarrow> bool) \<Rightarrow> string \<Rightarrow> string" where
  "Trim isspace t = skip_terminating isspace (skip_initial isspace t)"

section \<open>Vocabulary of the properties, and sample platform functions\<close>

text \<open>The arguments of type \<^verbatim>\<open>ResultError<E>\<close> in an argument list, in order.\<close>

fun ResultErrors :: "'e arg list \<Rightarrow> 'e ResultError list" where
  "ResultErrors [] = []"
| "ResultErrors (ResultErrorArg t # args) = t # ResultErrors args"
| "ResultErrors (OtherArg ins touch # args) = ResultErrors args"

text \<open>
  A stream on which the insertion of a string appends the string as it is: it is good, no
  field width is pending, and the put position is at the end.
\<close>

definition at_rest :: "sstream \<Rightarrow> bool" where
  "at_rest ss = (is_good ss \<and> fmt_width ss = 0 \<and> ppos ss = length (chars ss))"

text \<open>
  The platform functions are parameters of the model. To run it on concrete inputs, here
  are a \<^verbatim>\<open>strerror\<close> with two entries of a POSIX table, the \<^verbatim>\<open>isspace\<close> of the C locale
  (space and the bytes 9 to 13), operations that leave \<^verbatim>\<open>errno\<close> alone, and a formatter
  that knows only the replacement field \<^verbatim>\<open>{}\<close>, which it replaces by the text of the next
  argument (for a \<^verbatim>\<open>ResultError\<close>, its message, as its \<^verbatim>\<open>operator<<\<close> on a \<^verbatim>\<open>std::ostream\<close>
  prints it; for another argument, what it writes to a new stream).
\<close>

definition strerror_sample :: "c_int \<Rightarrow> string" where
  "strerror_sample n =
     (if n = 2 then ''No such file or directory''
      else if n = 13 then ''Permission denied''
      else ''Unknown error'')"

definition isspace_C :: "char \<Rightarrow> bool" where
  "isspace_C c = (let n = (of_char c :: nat) in n = 32 \<or> (9 \<le> n \<and> n \<le> 13))"

definition no_effects :: "'e effects" where
  "no_effects =
     \<lparr>code_assign = (\<lambda>c e. e), message_copy = (\<lambda>s e. e), string_put = (\<lambda>e. e),
      string_destroy = (\<lambda>e. e)\<rparr>"

fun arg_text :: "'e arg \<Rightarrow> string" where
  "arg_text (ResultErrorArg t) = message t"
| "arg_text (OtherArg ins touch) = chars (ins sstream_new)"

fun format_braces :: "string \<Rightarrow> 'e arg list \<Rightarrow> string" where
  "format_braces (c # d # fmt) (a # args) =
     (if c = CHR ''{'' \<and> d = CHR ''}'' then arg_text a @ format_braces fmt args
      else c # format_braces (d # fmt) (a # args))"
| "format_braces fmt args = fmt"

definition format_sample :: "string \<Rightarrow> 'e arg list \<Rightarrow> c_int \<Rightarrow> string \<times> c_int" where
  "format_sample fmt args errno = (format_braces fmt args, errno)"

section \<open>Properties of the Error builder\<close>

text \<open>
  C1. For every builder, \<^verbatim>\<open>str()\<close> is the description of the code alone when a code is
  attached (\<^verbatim>\<open>has_code_\<close>) and nothing has been accumulated; it is the accumulated text,
  then \<^verbatim>\<open>": "\<close>, then the description when a code is attached and the text is not
  empty; and it is the accumulated text as it is when no code is attached.
\<close>

theorem str_by_cases:
  "(m_has_code b \<and> chars (m_ss b) = [] \<longrightarrow> str print b = print (m_code b)) \<and>
   (m_has_code b \<and> chars (m_ss b) \<noteq> [] \<longrightarrow>
      str print b = chars (m_ss b) @ '': '' @ print (m_code b)) \<and>
   (\<not> m_has_code b \<longrightarrow> str print b = chars (m_ss b))"
  by (simp add: str_def)

text \<open>The insertion of a string into a new stream, and into a stream at rest.\<close>

lemma put_string_new: "put_string s sstream_new = sstream_new\<lparr>chars := s, ppos := length s\<rparr>"
  by (simp add: put_string_def sstream_new_def)

lemma put_string_at_rest:
  "at_rest ss \<Longrightarrow> chars (put_string s ss) = chars ss @ s \<and> at_rest (put_string s ss)"
  by (simp add: put_string_def at_rest_def)

lemma put_string_not_good: "\<not> is_good ss \<Longrightarrow> put_string s ss = ss"
  by (simp add: put_string_def)

text \<open>What the unconstrained part of \<^verbatim>\<open>operator<<\<close> does to the builder, and to \<^verbatim>\<open>errno\<close>.\<close>

lemma shl_other_fst: "fst (shl_other (b, errno) ins touch) = b\<lparr>m_ss := ins (m_ss b)\<rparr>"
  by (simp add: shl_other_def)

lemma shl_other_snd: "snd (shl_other (b, errno) ins touch) = errno"
  by (simp add: shl_other_def)

text \<open>What \<^verbatim>\<open>operator<<\<close> on a \<^verbatim>\<open>ResultError\<close> does to the builder, and to \<^verbatim>\<open>errno\<close>.\<close>

lemma shl_RE_fst:
  "fst (shl fx (b, errno) (ResultErrorArg t)) =
     (if m_has_code b then b else b\<lparr>m_code := code t\<rparr>)\<lparr>m_ss := put_string (message t) (m_ss b)\<rparr>"
  by (simp add: shl.simps(1) shl_other_def)

lemma shl_RE_snd:
  "snd (shl fx (b, errno) (ResultErrorArg t)) =
     string_destroy fx (message_copy fx (message t)
       (if m_has_code b then errno else code_assign fx (code t) errno))"
  by (simp add: shl.simps(1) shl_other_def)

theorem str_by_cases_witness:
  "m_has_code (Error_of_code (Errno 2)) \<and> chars (m_ss (Error_of_code (Errno 2))) = [] \<and>
   str (Errno_print strerror_sample) (Error_of_code (Errno 2)) = ''No such file or directory'' \<and>
   m_has_code (fst (shl no_effects (Error_of_code (Errno 13), 0) (OtherArg (put_string ''open'') id))) \<and>
   str (Errno_print strerror_sample)
      (fst (shl no_effects (Error_of_code (Errno 13), 0) (OtherArg (put_string ''open'') id)))
     = ''open: Permission denied'' \<and>
   \<not> m_has_code (fst (shl no_effects (Error_default (Errno 0), 0)
        (ResultErrorArg (ResultError ''open'' (Errno 13))))) \<and>
   str (Errno_print strerror_sample) (fst (shl no_effects (Error_default (Errno 0), 0)
        (ResultErrorArg (ResultError ''open'' (Errno 13)))))
     = ''open''"
  using str_by_cases [of "Error_of_code (Errno 2)" "Errno_print strerror_sample"]
    str_by_cases [of "fst (shl no_effects (Error_of_code (Errno 13), 0) (OtherArg (put_string ''open'') id))"
      "Errno_print strerror_sample"]
    str_by_cases [of "fst (shl no_effects (Error_default (Errno 0), 0)
        (ResultErrorArg (ResultError ''open'' (Errno 13))))" "Errno_print strerror_sample"]
  by (simp add: Error_of_code_def Error_default_def Errno_print_def Errno_value_def
      strerror_sample_def shl_other_fst shl_RE_fst put_string_def sstream_new_def)

text \<open>
  C2 (as amended). Appending a \<^verbatim>\<open>ResultError\<close> \<open>r\<close> to a builder \<open>b\<close>: when \<^verbatim>\<open>has_code_\<close> is
  false the builder's code becomes the code of \<open>r\<close>, also when the builder had taken a code
  over before; when \<^verbatim>\<open>has_code_\<close> is true the code stays. The message of \<open>r\<close> is inserted
  into the stream as a string: it is appended to the buffer when the stream is at rest
  (good, no field width pending, put position at the end), and the stream is then at rest
  again; nothing is inserted when the stream is not good. In particular
  \<^verbatim>\<open>Error() << ResultError{x, c}\<close> has the code \<open>c\<close> and the accumulated message \<open>x\<close>.
\<close>

theorem shl_ResultError:
  "(\<not> m_has_code b \<longrightarrow> m_code (fst (shl fx (b, errno) (ResultErrorArg r))) = code r) \<and>
   (m_has_code b \<longrightarrow> m_code (fst (shl fx (b, errno) (ResultErrorArg r))) = m_code b) \<and>
   m_ss (fst (shl fx (b, errno) (ResultErrorArg r))) = put_string (message r) (m_ss b) \<and>
   (at_rest (m_ss b) \<longrightarrow>
      chars (m_ss (fst (shl fx (b, errno) (ResultErrorArg r)))) = chars (m_ss b) @ message r \<and>
      at_rest (m_ss (fst (shl fx (b, errno) (ResultErrorArg r))))) \<and>
   (\<not> is_good (m_ss b) \<longrightarrow> m_ss (fst (shl fx (b, errno) (ResultErrorArg r))) = m_ss b) \<and>
   m_code (fst (shl fx (Error_default zero, errno) (ResultErrorArg (ResultError x c)))) = c \<and>
   chars (m_ss (fst (shl fx (Error_default zero, errno) (ResultErrorArg (ResultError x c))))) = x"
  by (simp add: shl_RE_fst put_string_at_rest put_string_not_good put_string_new
      Error_default_def)

theorem shl_ResultError_witness:
  "\<not> m_has_code (Error_default (Errno 0)) \<and> at_rest (m_ss (Error_default (Errno 0))) \<and>
   m_code (fst (shl no_effects (Error_default (Errno 0), 0)
      (ResultErrorArg (ResultError ''x'' (Errno 5))))) = Errno 5 \<and>
   chars (m_ss (fst (shl no_effects (Error_default (Errno 0), 0)
      (ResultErrorArg (ResultError ''x'' (Errno 5)))))) = ''x'' \<and>
   m_has_code (Error_of_code (Errno 13)) \<and>
   m_code (fst (shl no_effects (Error_of_code (Errno 13), 0)
      (ResultErrorArg (ResultError ''x'' (Errno 5))))) = Errno 13 \<and>
   \<not> is_good (m_ss (fst (shl no_effects (Error_default (Errno 0), 0)
      (OtherArg (\<lambda>ss. ss\<lparr>is_good := False\<rparr>) id)))) \<and>
   chars (m_ss (fst (shl no_effects
      (fst (shl no_effects (Error_default (Errno 0), 0) (OtherArg (\<lambda>ss. ss\<lparr>is_good := False\<rparr>) id)), 0)
      (ResultErrorArg (ResultError ''x'' (Errno 5)))))) = []"
  using shl_ResultError [of "Error_default (Errno 0)" no_effects 0 "ResultError ''x'' (Errno 5)"
      "Errno 0" "''x''" "Errno 5"]
    shl_ResultError [of "Error_of_code (Errno 13)" no_effects 0 "ResultError ''x'' (Errno 5)"
      "Errno 0" "''x''" "Errno 5"]
    shl_ResultError [of "fst (shl no_effects (Error_default (Errno 0), 0)
      (OtherArg (\<lambda>ss. ss\<lparr>is_good := False\<rparr>) id))" no_effects 0 "ResultError ''x'' (Errno 5)"
      "Errno 0" "''x''" "Errno 5"]
  by (simp add: Error_default_def Error_of_code_def at_rest_def sstream_new_def shl_other_fst
      put_string_def)

text \<open>
  C2 as it was stated leaves the code unchanged when the builder already has one, and
  appends the message for every builder. \<^verbatim>\<open>Error() << ResultError{"a", 1}\<close> has the code 1,
  and appending \<^verbatim>\<open>ResultError{"b", 2}\<close> to it changes the code to 2. On a builder whose stream
  an earlier operand has left not good, the message \<^verbatim>\<open>"y"\<close> of an appended \<^verbatim>\<open>ResultError\<close>
  does not reach the buffer.
\<close>

theorem shl_ResultError_counterexample:
  "m_code (fst (shl no_effects (Error_default (Errno 0), 0)
      (ResultErrorArg (ResultError ''a'' (Errno 1))))) = Errno 1 \<and>
   m_code (fst (shl no_effects
      (fst (shl no_effects (Error_default (Errno 0), 0)
         (ResultErrorArg (ResultError ''a'' (Errno 1)))), 0)
      (ResultErrorArg (ResultError ''b'' (Errno 2)))))
     \<noteq> m_code (fst (shl no_effects (Error_default (Errno 0), 0)
      (ResultErrorArg (ResultError ''a'' (Errno 1))))) \<and>
   chars (m_ss (fst (shl no_effects
      (fst (shl no_effects (Error_default (Errno 0), 0) (OtherArg (\<lambda>ss. ss\<lparr>is_good := False\<rparr>) id)), 0)
      (ResultErrorArg (ResultError ''y'' (Errno 5))))))
     \<noteq> chars (m_ss (fst (shl no_effects (Error_default (Errno 0), 0)
          (OtherArg (\<lambda>ss. ss\<lparr>is_good := False\<rparr>) id)))) @ ''y''"
  by (simp add: shl_RE_fst shl_other_fst Error_default_def put_string_def
      sstream_new_def)

section \<open>Properties of ErrorCode\<close>

lemma ErrorCode_ResultErrors:
  "ErrorCode c args = (if ResultErrors args = [] then c else code (last (ResultErrors args)))"
  by (induction c args rule: ErrorCode.induct) simp_all

text \<open>
  C3 (as amended). \<^verbatim>\<open>ErrorCode(c, args...)\<close> returns the code of the last argument of type
  \<^verbatim>\<open>ResultError<E>\<close> when there is one, and \<open>c\<close> when there is none.
\<close>

theorem ErrorCode_last_ResultError:
  "(ResultErrors args \<noteq> [] \<longrightarrow> ErrorCode c args = code (last (ResultErrors args))) \<and>
   (ResultErrors args = [] \<longrightarrow> ErrorCode c args = c)"
  by (simp add: ErrorCode_ResultErrors)

theorem ErrorCode_last_ResultError_witness:
  "ResultErrors [ResultErrorArg (ResultError ''a'' (Errno 1)), OtherArg (put_string ''z'') id,
      ResultErrorArg (ResultError ''b'' (Errno 2))] \<noteq> [] \<and>
   ErrorCode (Errno 0) [ResultErrorArg (ResultError ''a'' (Errno 1)), OtherArg (put_string ''z'') id,
      ResultErrorArg (ResultError ''b'' (Errno 2))] = Errno 2 \<and>
   ResultErrors [OtherArg (put_string ''z'') id :: Errno arg] = [] \<and>
   ErrorCode (Errno 7) [OtherArg (put_string ''z'') id] = Errno 7"
  using ErrorCode_last_ResultError [of "[ResultErrorArg (ResultError ''a'' (Errno 1)), OtherArg (put_string ''z'') id,
      ResultErrorArg (ResultError ''b'' (Errno 2))]" "Errno 0"]
    ErrorCode_last_ResultError [of "[OtherArg (put_string ''z'') id]" "Errno 7"]
  by simp

text \<open>
  C3 as it was stated, with the first \<^verbatim>\<open>ResultError\<close> argument, fails on two such arguments
  with different codes: the second one's code is returned.
\<close>

theorem ErrorCode_first_counterexample:
  "hd (ResultErrors [ResultErrorArg (ResultError ''a'' (Errno 1)),
      ResultErrorArg (ResultError ''b'' (Errno 2))]) = ResultError ''a'' (Errno 1) \<and>
   ErrorCode (Errno 0) [ResultErrorArg (ResultError ''a'' (Errno 1)),
      ResultErrorArg (ResultError ''b'' (Errno 2))] \<noteq> code (ResultError ''a'' (Errno 1))"
  by simp

section \<open>Chains of appends\<close>

lemma shl_has_code: "m_has_code (fst (shl fx st t)) = m_has_code (fst st)"
  by (cases st; cases t) (simp_all add: shl_RE_fst shl_other_fst)

lemma shl_code:
  "m_code (fst (shl fx st t)) =
     (if m_has_code (fst st) then m_code (fst st) else ErrorCode (m_code (fst st)) [t])"
  by (cases st; cases t) (simp_all add: shl_RE_fst shl_other_fst)

lemma shl_all_has_code: "m_has_code (fst (shl_all fx st ts)) = m_has_code (fst st)"
  by (induction ts arbitrary: st) (simp_all add: shl_has_code)

lemma shl_all_code:
  "m_code (fst (shl_all fx st ts)) =
     (if m_has_code (fst st) then m_code (fst st) else ErrorCode (m_code (fst st)) ts)"
proof (induction ts arbitrary: st)
  case Nil
  show ?case by simp
next
  case (Cons t ts)
  show ?case
    by (cases t) (simp_all add: Cons.IH shl_has_code shl_code)
qed

text \<open>The builders that the private constructor and \<^verbatim>\<open>ErrorfImpl\<close> make.\<close>

lemma Error_private_fst:
  "fst (Error_private sput has_code c msg errno)
     = \<lparr>m_ss = put_string msg sstream_new, m_code = c, m_has_code = has_code\<rparr>"
  by (simp add: Error_private_def shl_other_fst)

lemma ErrorfImpl_builder:
  "fst (ErrorfImpl fmt_format sput fmt args errno)
     = \<lparr>m_ss = put_string (fst (fmt_format fmt args errno)) sstream_new,
        m_code = ErrorCode Errno_default args, m_has_code = False\<rparr>"
  by (simp add: ErrorfImpl_def split_def Error_private_fst)

text \<open>
  C4 (as amended). Converting a builder \<open>b\<close> to a \<^verbatim>\<open>Result<T, E>\<close> gives a failure
  (\<^verbatim>\<open>ok()\<close> is false) whose error has the message \<^verbatim>\<open>b.str()\<close> and the code held in the field
  \<^verbatim>\<open>code_\<close> of \<open>b\<close>, whether or not \<^verbatim>\<open>has_code_\<close> is set. That field holds what the
  constructor stored: \<^verbatim>\<open>E(0)\<close> for \<^verbatim>\<open>Error()\<close>, the code given for \<^verbatim>\<open>Error(code)\<close> and for the
  private constructor, which for \<^verbatim>\<open>ErrorfImpl\<close> is \<^verbatim>\<open>ErrorCode(Errno{}, args...)\<close>. A chain of
  appends leaves it as it is on a builder with \<^verbatim>\<open>has_code_\<close> true, and on a builder with
  \<^verbatim>\<open>has_code_\<close> false replaces it by the code of the last \<^verbatim>\<open>ResultError\<close> appended, when
  there is one.
\<close>

theorem to_expected_failure:
  "\<not> ok (to_expected print id b :: ('t, 'e) Result) \<and>
   error (to_expected print id b :: ('t, 'e) Result)
     = Some (ResultError (str print b) (m_code b)) \<and>
   m_code (fst (shl_all fx (b, errno) ts))
     = (if m_has_code b then m_code b else ErrorCode (m_code b) ts) \<and>
   m_code (Error_default zero) = zero \<and> \<not> m_has_code (Error_default zero) \<and>
   m_code (Error_of_code c) = c \<and> m_has_code (Error_of_code c) \<and>
   m_code (fst (Error_private sput has_code c msg errno)) = c \<and>
   m_has_code (fst (Error_private sput has_code c msg errno)) = has_code \<and>
   m_code (fst (ErrorfImpl fmt_format sput fmt args errno)) = ErrorCode Errno_default args \<and>
   \<not> m_has_code (fst (ErrorfImpl fmt_format sput fmt args errno))"
  by (simp add: to_expected_def shl_all_code Error_of_code_def Error_default_def
      Error_private_fst ErrorfImpl_builder)

theorem to_expected_failure_witness:
  "\<not> ok (to_expected (Errno_print strerror_sample) id (Error_of_code (Errno 2)) :: (unit, Errno) Result) \<and>
   error (to_expected (Errno_print strerror_sample) id (Error_of_code (Errno 2)) :: (unit, Errno) Result)
     = Some (ResultError ''No such file or directory'' (Errno 2)) \<and>
   m_code (fst (shl_all no_effects (Error_default (Errno 0), 0)
      [OtherArg (put_string ''context: '') id, ResultErrorArg (ResultError ''low-level'' (Errno 13))]))
     = Errno 13 \<and>
   m_code (fst (ErrorfImpl format_sample id ''{}'' [ResultErrorArg (ResultError ''x'' (Errno 5))] 0))
     = Errno 5"
  using to_expected_failure [where ?'t = unit and print = "Errno_print strerror_sample"
      and b = "Error_of_code (Errno 2)" and fx = no_effects and errno = 0 and ts = "[]"
      and zero = "Errno 0" and c = "Errno 2" and sput = id and has_code = False and msg = "''x''"
      and fmt_format = format_sample and fmt = "''{}''"
      and args = "[ResultErrorArg (ResultError ''x'' (Errno 5))]"]
    to_expected_failure [where ?'t = unit and print = "Errno_print strerror_sample"
      and b = "Error_default (Errno 0)" and fx = no_effects and errno = 0
      and ts = "[OtherArg (put_string ''context: '') id, ResultErrorArg (ResultError ''low-level'' (Errno 13))]"
      and zero = "Errno 0" and c = "Errno 2" and sput = id and has_code = False and msg = "''x''"
      and fmt_format = format_sample and fmt = "''{}''"
      and args = "[ResultErrorArg (ResultError ''x'' (Errno 5))]"]
  by (simp add: str_def Error_of_code_def Error_default_def Errno_print_def Errno_value_def
      strerror_sample_def sstream_new_def Errno_default_def)

text \<open>
  C4 as it was stated gives the default value of \<open>E\<close> to every builder with no code attached
  (\<^verbatim>\<open>has_code_\<close> false). \<^verbatim>\<open>Error() << ResultError{"x", 5}\<close> is such a builder, and it
  converts to an error with the code 5.
\<close>

theorem to_expected_default_code_counterexample:
  "\<not> m_has_code (fst (shl no_effects (Error_default Errno_default, 0)
        (ResultErrorArg (ResultError ''x'' (Errno 5))))) \<and>
   map_option code (error (to_expected (Errno_print strerror_sample) id
      (fst (shl no_effects (Error_default Errno_default, 0)
        (ResultErrorArg (ResultError ''x'' (Errno 5))))) :: (unit, Errno) Result))
     \<noteq> Some Errno_default"
  by (simp add: to_expected_def shl_RE_fst Error_default_def Errno_default_def)

section \<open>The error number across an append\<close>

lemma shl_all_snd: "ResultErrors ts = [] \<Longrightarrow> snd (shl_all fx st ts) = snd st"
proof (induction ts arbitrary: st)
  case Nil
  show ?case by simp
next
  case (Cons t ts)
  then show ?case
    by (cases t; cases st) (simp_all add: shl_other_snd)
qed

text \<open>
  C5 (as amended). For an operand that is not a \<^verbatim>\<open>ResultError<E>\<close>, \<^verbatim>\<open>errno\<close> after
  \<^verbatim>\<open>operator<<\<close> is \<^verbatim>\<open>errno\<close> before it, whatever the insertion does to \<^verbatim>\<open>errno\<close> in between;
  so it is after a chain of such operands. For a \<^verbatim>\<open>ResultError<E>\<close> operand the insertion
  of its message is undone in the same way, but the copy assignment of the code (run when
  \<^verbatim>\<open>has_code_\<close> is false) and the construction and the destruction of the temporary
  \<^verbatim>\<open>t.message()\<close> are outside the save and the restore: \<^verbatim>\<open>errno\<close> after the call is what
  these leave, and it is \<^verbatim>\<open>errno\<close> before the call when they leave \<^verbatim>\<open>errno\<close> as it is.
\<close>

theorem shl_preserves_errno:
  "snd (shl fx (b, errno) (OtherArg ins touch)) = errno \<and>
   snd (shl fx (b, errno) (ResultErrorArg r))
     = string_destroy fx (message_copy fx (message r)
         (if m_has_code b then errno else code_assign fx (code r) errno)) \<and>
   ((m_has_code b \<or> code_assign fx (code r) errno = errno) \<and>
    message_copy fx (message r) errno = errno \<and> string_destroy fx errno = errno \<longrightarrow>
      snd (shl fx (b, errno) (ResultErrorArg r)) = errno) \<and>
   (ResultErrors ts = [] \<longrightarrow> snd (shl_all fx (b, errno) ts) = errno)"
  by (auto simp add: shl_other_snd shl_RE_snd shl_all_snd)

theorem shl_preserves_errno_witness:
  "snd (shl (no_effects\<lparr>string_put := (\<lambda>e. 12)\<rparr>) (Error_default (Errno 0), 2)
      (OtherArg (put_string ''x'') (\<lambda>e. 34))) = 2 \<and>
   message_copy (no_effects\<lparr>string_put := (\<lambda>e. 12)\<rparr> :: Errno effects) ''y'' 2 = 2 \<and>
   snd (shl (no_effects\<lparr>string_put := (\<lambda>e. 12)\<rparr>) (Error_default (Errno 0), 2)
      (ResultErrorArg (ResultError ''y'' (Errno 5)))) = 2 \<and>
   ResultErrors [OtherArg (put_string ''x'') (\<lambda>e. 34), OtherArg (put_string ''z'') (\<lambda>e. 56) :: Errno arg] = [] \<and>
   snd (shl_all (no_effects\<lparr>string_put := (\<lambda>e. 12)\<rparr>) (Error_default (Errno 0), 2)
      [OtherArg (put_string ''x'') (\<lambda>e. 34), OtherArg (put_string ''z'') (\<lambda>e. 56)]) = 2"
  using shl_preserves_errno [of "no_effects\<lparr>string_put := (\<lambda>e. 12)\<rparr>" "Error_default (Errno 0)" 2
      "put_string ''x''" "\<lambda>e. 34" "ResultError ''y'' (Errno 5)"
      "[OtherArg (put_string ''x'') (\<lambda>e. 34), OtherArg (put_string ''z'') (\<lambda>e. 56)]"]
  by (simp add: no_effects_def)

text \<open>
  C5 as it was stated covers every operand of every code type. With a code type whose copy
  assignment sets \<^verbatim>\<open>errno\<close> to 77 (the natural numbers stand for it here), \<^verbatim>\<open>errno\<close> is 2
  before \<^verbatim>\<open>Error() << ResultError{"x", 5}\<close> and 77 after it.
\<close>

theorem shl_errno_counterexample:
  "snd (shl (no_effects\<lparr>code_assign := (\<lambda>c e. 77)\<rparr>) (Error_default (0 :: nat), 2)
      (ResultErrorArg (ResultError ''x'' 5))) = 77 \<and>
   snd (shl (no_effects\<lparr>code_assign := (\<lambda>c e. 77)\<rparr>) (Error_default (0 :: nat), 2)
      (ResultErrorArg (ResultError ''x'' 5))) \<noteq> 2"
  by (simp add: shl_RE_snd no_effects_def Error_default_def)

section \<open>Properties of ErrnoError and ErrorfImpl\<close>

text \<open>
  C6. With \<^verbatim>\<open>errno\<close> equal to \<open>n\<close> at the call, \<^verbatim>\<open>ErrnoError()\<close> is a builder with a code
  attached, whose code has \<^verbatim>\<open>value()\<close> \<open>n\<close>, and with an empty message. With \<^verbatim>\<open>errno\<close> equal
  to 2 its code converts to 2 and prints as \<^verbatim>\<open>strerror(2)\<close>.
\<close>

theorem ErrnoError_captures_errno:
  "m_has_code (ErrnoError n) \<and> m_code (ErrnoError n) = Errno n \<and>
   Errno_value (m_code (ErrnoError n)) = n \<and> m_ss (ErrnoError n) = sstream_new \<and>
   chars (m_ss (ErrnoError n)) = [] \<and>
   Errno_int (m_code (ErrnoError 2)) = 2 \<and>
   Errno_print strerror (m_code (ErrnoError 2)) = strerror 2"
  by (simp add: ErrnoError_def Error_of_code_def Errno_value_def Errno_int_def Errno_print_def
      sstream_new_def)

text \<open>
  C7 (as amended). Let \<open>msg\<close> be the text \<^verbatim>\<open>fmt::format(fmt, args...)\<close> renders. The builder
  \<^verbatim>\<open>ErrorfImpl(fmt, args...)\<close> has the same \<^verbatim>\<open>str()\<close>, namely \<open>msg\<close>, as the plain builder
  \<^verbatim>\<open>Error() << msg\<close>. It converts to a failure with the message \<open>msg\<close> and the code
  \<^verbatim>\<open>ErrorCode(Errno{}, args...)\<close>; when no argument is a \<^verbatim>\<open>ResultError<Errno>\<close> this is the
  conversion of the plain builder.
\<close>

theorem ErrorfImpl_as_plain_builder:
  assumes "fmt_format fmt args errno = (msg, errno1)"
  shows "str print (fst (ErrorfImpl fmt_format sput fmt args errno))
           = str print (fst (shl fx (Error_default (Errno 0), e) (OtherArg (put_string msg) touch))) \<and>
         str print (fst (ErrorfImpl fmt_format sput fmt args errno)) = msg \<and>
         \<not> ok (to_expected print id (fst (ErrorfImpl fmt_format sput fmt args errno))
              :: ('t, Errno) Result) \<and>
         error (to_expected print id (fst (ErrorfImpl fmt_format sput fmt args errno))
              :: ('t, Errno) Result)
           = Some (ResultError msg (ErrorCode (Errno 0) args)) \<and>
         (ResultErrors args = [] \<longrightarrow>
            (to_expected print id (fst (ErrorfImpl fmt_format sput fmt args errno))
              :: ('t, Errno) Result)
              = to_expected print id
                  (fst (shl fx (Error_default (Errno 0), e) (OtherArg (put_string msg) touch))))"
  using assms
  by (simp add: ErrorfImpl_builder shl_other_fst Error_default_def str_def to_expected_def
      Errno_default_def ErrorCode_ResultErrors put_string_new)

theorem ErrorfImpl_as_plain_builder_witness:
  "format_sample ''failed to read {}'' [OtherArg (put_string ''path'') id :: Errno arg] 0
     = (''failed to read path'', 0) \<and>
   ResultErrors [OtherArg (put_string ''path'') id :: Errno arg] = [] \<and>
   \<not> ok (to_expected (Errno_print strerror_sample) id
      (fst (ErrorfImpl format_sample id ''failed to read {}'' [OtherArg (put_string ''path'') id] 0))
      :: (string, Errno) Result) \<and>
   error (to_expected (Errno_print strerror_sample) id
      (fst (ErrorfImpl format_sample id ''failed to read {}'' [OtherArg (put_string ''path'') id] 0))
      :: (string, Errno) Result)
     = Some (ResultError ''failed to read path'' (Errno 0)) \<and>
   (to_expected (Errno_print strerror_sample) id
      (fst (ErrorfImpl format_sample id ''failed to read {}'' [OtherArg (put_string ''path'') id] 0))
      :: (string, Errno) Result)
     = to_expected (Errno_print strerror_sample) id
        (fst (shl no_effects (Error_default (Errno 0), 0)
           (OtherArg (put_string ''failed to read path'') id)))"
proof -
  have h: "format_sample ''failed to read {}'' [OtherArg (put_string ''path'') id :: Errno arg] 0
      = (''failed to read path'', 0)"
    by (simp add: format_sample_def put_string_new)
  have n: "ResultErrors [OtherArg (put_string ''path'') id :: Errno arg] = []"
    by simp
  from ErrorfImpl_as_plain_builder [where fmt_format = format_sample
      and fmt = "''failed to read {}''" and args = "[OtherArg (put_string ''path'') id]"
      and errno = 0 and msg = "''failed to read path''" and ?errno1.0 = 0
      and print = "Errno_print strerror_sample" and sput = id and fx = no_effects and e = 0
      and touch = id and ?'t = string, OF h] h n
  show ?thesis
    by (simp add: to_expected_def shl_other_fst Error_default_def str_def put_string_new)
qed

text \<open>
  C7 as it was stated fails when an argument is a \<^verbatim>\<open>ResultError<Errno>\<close> with a code other
  than 0: \<^verbatim>\<open>ErrorfImpl\<close> takes that code over, the plain builder to which the rendered
  text is appended keeps the code 0.
\<close>

theorem ErrorfImpl_code_counterexample:
  "(to_expected (Errno_print strerror_sample) id
      (fst (ErrorfImpl format_sample id ''{}'' [ResultErrorArg (ResultError ''x'' (Errno 5))] 0))
      :: (unit, Errno) Result)
   \<noteq> to_expected (Errno_print strerror_sample) id
        (fst (shl no_effects (Error_default (Errno 0), 0)
           (OtherArg (put_string
              (fst (format_sample ''{}'' [ResultErrorArg (ResultError ''x'' (Errno 5))] 0))) id)))"
  by (simp add: to_expected_def ErrorfImpl_builder format_sample_def shl_other_fst
      Error_default_def str_def)

section \<open>Properties of OkOrFail\<close>

text \<open>
  C8. For a \<^verbatim>\<open>Result<T, E>\<close> \<open>v\<close> with \<^verbatim>\<open>ok()\<close> false, with the error \<open>e\<close>: \<^verbatim>\<open>Fail(v)\<close>
  passes its assertion and wraps \<open>v\<close>; the wrapper converts to a code type \<open>S\<close> as the
  conversion of the code of \<open>e\<close>, and to \<^verbatim>\<open>Result<U, E>\<close>, for any \<open>U\<close>, as a failure whose
  error is \<open>e\<close>: same message, same code.
\<close>

theorem Fail_carries_error:
  assumes "\<not> ok v"
  shows "\<exists>e. error v = Some e \<and> Fail v = Some (OkOrFail v) \<and>
           OkOrFail_to_S cast (OkOrFail v) = Some (cast (code e)) \<and>
           (\<exists>r. OkOrFail_to_Result (OkOrFail v) = Some r \<and> \<not> ok r \<and> error r = Some e \<and>
                message (the (error r)) = message e \<and> code (the (error r)) = code e)"
  using assms
  by (cases v) (simp_all add: Fail_def IsOk_def OkOrFail_to_S_def OkOrFail_to_Result_def
      ResultError_to_expected_def)

theorem Fail_carries_error_witness:
  "\<not> ok (Unexpected (ResultError ''low-level'' (Errno 13)) :: (unit, Errno) Result) \<and>
   Fail (Unexpected (ResultError ''low-level'' (Errno 13)) :: (unit, Errno) Result)
     = Some (OkOrFail (Unexpected (ResultError ''low-level'' (Errno 13)))) \<and>
   OkOrFail_to_S Errno_int (OkOrFail (Unexpected (ResultError ''low-level'' (Errno 13)) :: (unit, Errno) Result))
     = Some 13 \<and>
   (OkOrFail_to_Result (OkOrFail (Unexpected (ResultError ''low-level'' (Errno 13)) :: (unit, Errno) Result))
      :: (bool, Errno) Result option)
     = Some (Unexpected (ResultError ''low-level'' (Errno 13)))"
proof -
  let ?v = "Unexpected (ResultError ''low-level'' (Errno 13)) :: (unit, Errno) Result"
  have h: "\<not> ok ?v" by simp
  from Fail_carries_error [OF h, of Errno_int]
  obtain e and r :: "(bool, Errno) Result" where
    "error ?v = Some e" "Fail ?v = Some (OkOrFail ?v)"
    "OkOrFail_to_S Errno_int (OkOrFail ?v) = Some (Errno_int (code e))"
    "OkOrFail_to_Result (OkOrFail ?v) = Some r" "\<not> ok r" "error r = Some e"
    by blast
  then show ?thesis
    by (cases r) (auto simp add: Errno_int_def Errno_value_def)
qed

section \<open>The flag has_code_\<close>

text \<open>
  C9. No append changes \<^verbatim>\<open>has_code_\<close>: it is after one append, and after a chain of
  appends, what the constructor made it. So a builder made by \<^verbatim>\<open>Error()\<close> renders \<^verbatim>\<open>str()\<close>
  as the bare accumulated message after any chain of appends; and a builder with
  \<^verbatim>\<open>has_code_\<close> false to which a \<^verbatim>\<open>ResultError\<close> \<open>r\<close> is appended still renders \<^verbatim>\<open>str()\<close> as
  the accumulated message, with no suffix for the code (the buffer followed by the message
  of \<open>r\<close> when the stream was at rest), while its conversion to a \<^verbatim>\<open>Result\<close> carries the
  code of \<open>r\<close>.
\<close>

theorem has_code_fixed_at_construction:
  "m_has_code (fst (shl fx (b, errno) t)) = m_has_code b \<and>
   m_has_code (fst (shl_all fx (b, errno) ts)) = m_has_code b \<and>
   str print (fst (shl_all fx (Error_default zero, errno) ts))
     = chars (m_ss (fst (shl_all fx (Error_default zero, errno) ts))) \<and>
   (\<not> m_has_code b \<longrightarrow>
      str print (fst (shl fx (b, errno) (ResultErrorArg r)))
        = chars (m_ss (fst (shl fx (b, errno) (ResultErrorArg r)))) \<and>
      error (to_expected print id (fst (shl fx (b, errno) (ResultErrorArg r))) :: ('t, 'e) Result)
        = Some (ResultError (chars (m_ss (fst (shl fx (b, errno) (ResultErrorArg r))))) (code r)) \<and>
      (at_rest (m_ss b) \<longrightarrow>
         str print (fst (shl fx (b, errno) (ResultErrorArg r))) = chars (m_ss b) @ message r \<and>
         error (to_expected print id (fst (shl fx (b, errno) (ResultErrorArg r))) :: ('t, 'e) Result)
           = Some (ResultError (chars (m_ss b) @ message r) (code r))))"
proof -
  have "\<not> m_has_code (fst (shl_all fx (Error_default zero, errno) ts))"
    by (simp add: shl_all_has_code Error_default_def)
  then have "str print (fst (shl_all fx (Error_default zero, errno) ts))
     = chars (m_ss (fst (shl_all fx (Error_default zero, errno) ts)))"
    by (simp add: str_def)
  then show ?thesis
    by (simp add: shl_has_code shl_all_has_code shl_RE_fst str_def to_expected_def
        put_string_at_rest)
qed

theorem has_code_fixed_at_construction_witness:
  "\<not> m_has_code (fst (shl no_effects (Error_default (Errno 0), 0)
       (OtherArg (put_string ''context: '') id))) \<and>
   at_rest (m_ss (fst (shl no_effects (Error_default (Errno 0), 0)
       (OtherArg (put_string ''context: '') id)))) \<and>
   str (Errno_print strerror_sample)
     (fst (shl no_effects
        (fst (shl no_effects (Error_default (Errno 0), 0) (OtherArg (put_string ''context: '') id)), 0)
        (ResultErrorArg (ResultError ''low-level'' (Errno 13))))) = ''context: low-level'' \<and>
   error (to_expected (Errno_print strerror_sample) id
     (fst (shl no_effects
        (fst (shl no_effects (Error_default (Errno 0), 0) (OtherArg (put_string ''context: '') id)), 0)
        (ResultErrorArg (ResultError ''low-level'' (Errno 13))))) :: (unit, Errno) Result)
     = Some (ResultError ''context: low-level'' (Errno 13))"
proof -
  let ?b = "fst (shl no_effects (Error_default (Errno 0), 0) (OtherArg (put_string ''context: '') id))"
  have h: "\<not> m_has_code ?b"
    by (simp add: shl_other_fst Error_default_def)
  have s: "chars (m_ss ?b) = ''context: ''"
    by (simp add: shl_other_fst Error_default_def put_string_new)
  have a: "at_rest (m_ss ?b)"
    by (simp add: shl_other_fst Error_default_def put_string_def at_rest_def sstream_new_def)
  from has_code_fixed_at_construction [where b = ?b and fx = no_effects and errno = 0
      and r = "ResultError ''low-level'' (Errno 13)" and print = "Errno_print strerror_sample"
      and ?'t = unit] h a
  have "str (Errno_print strerror_sample)
          (fst (shl no_effects (?b, 0) (ResultErrorArg (ResultError ''low-level'' (Errno 13)))))
        = chars (m_ss ?b) @ message (ResultError ''low-level'' (Errno 13)) \<and>
      error (to_expected (Errno_print strerror_sample) id
          (fst (shl no_effects (?b, 0) (ResultErrorArg (ResultError ''low-level'' (Errno 13)))))
          :: (unit, Errno) Result)
        = Some (ResultError (chars (m_ss ?b) @ message (ResultError ''low-level'' (Errno 13)))
            (code (ResultError ''low-level'' (Errno 13))))"
    by blast
  with h a show ?thesis
    by (simp only: s) simp
qed

section \<open>Properties of Trim\<close>

text \<open>Both loops of \<^verbatim>\<open>Trim\<close> drop a longest run of whitespace, from the front and from the back.\<close>

lemma skip_initial_dropWhile: "skip_initial isspace sv = dropWhile isspace sv"
  by (induction sv) simp_all

lemma skip_terminating_dropWhile:
  "skip_terminating isspace sv = rev (dropWhile isspace (rev sv))"
proof (induction isspace sv rule: skip_terminating.induct)
  case (1 isspace sv)
  show ?case
  proof (cases sv rule: rev_cases)
    case Nil
    then show ?thesis
      by (subst skip_terminating.simps) simp
  next
    case (snoc ys c)
    show ?thesis
    proof (cases "isspace c")
      case True
      with snoc "1.IH" show ?thesis
        by (subst skip_terminating.simps) simp
    next
      case False
      with snoc show ?thesis
        by (subst skip_terminating.simps) simp
    qed
  qed
qed

lemma Trim_dropWhile: "Trim isspace s = rev (dropWhile isspace (rev (dropWhile isspace s)))"
  by (simp add: Trim_def skip_initial_dropWhile skip_terminating_dropWhile)

text \<open>
  C10. \<^verbatim>\<open>Trim(s)\<close> is \<open>s\<close> without its leading and its trailing whitespace: \<open>s\<close> is a run
  of whitespace, then \<^verbatim>\<open>Trim(s)\<close> unchanged, then a run of whitespace, and \<^verbatim>\<open>Trim(s)\<close>, when
  it is not empty, neither starts nor ends with whitespace. Hence \<^verbatim>\<open>Trim(Trim(s))\<close> is
  \<^verbatim>\<open>Trim(s)\<close>. Whitespace is what \<^verbatim>\<open>isspace\<close> accepts.
\<close>

theorem Trim_strips_whitespace:
  "Trim isspace s = rev (dropWhile isspace (rev (dropWhile isspace s))) \<and>
   (\<exists>pre suf. s = pre @ Trim isspace s @ suf \<and>
      (\<forall>c \<in> set pre. isspace c) \<and> (\<forall>c \<in> set suf. isspace c)) \<and>
   (Trim isspace s \<noteq> [] \<longrightarrow>
      \<not> isspace (hd (Trim isspace s)) \<and> \<not> isspace (last (Trim isspace s))) \<and>
   Trim isspace (Trim isspace s) = Trim isspace s"
proof -
  let ?t = "dropWhile isspace s"
  let ?r = "Trim isspace s"
  have r: "?r = rev (dropWhile isspace (rev ?t))"
    by (rule Trim_dropWhile)
  have t: "?t = ?r @ rev (takeWhile isspace (rev ?t))"
  proof -
    have "?r @ rev (takeWhile isspace (rev ?t))
        = rev (takeWhile isspace (rev ?t) @ dropWhile isspace (rev ?t))"
      by (simp only: r rev_append)
    also have "\<dots> = rev (rev ?t)"
      by (simp only: takeWhile_dropWhile_id)
    also have "\<dots> = ?t"
      by simp
    finally show ?thesis
      by simp
  qed
  have split: "s = takeWhile isspace s @ ?r @ rev (takeWhile isspace (rev ?t))"
    using t takeWhile_dropWhile_id [of isspace s] by simp
  have pre: "\<forall>c \<in> set (takeWhile isspace s). isspace c"
    by (auto dest: set_takeWhileD)
  have suf: "\<forall>c \<in> set (rev (takeWhile isspace (rev ?t))). isspace c"
    by (auto dest: set_takeWhileD)
  have ends: "\<not> isspace (hd ?r) \<and> \<not> isspace (last ?r)" if ne: "?r \<noteq> []"
  proof
    from ne t have "?t \<noteq> []" and "hd ?t = hd ?r"
      by (metis append_is_Nil_conv, metis hd_append2)
    then show "\<not> isspace (hd ?r)"
      using hd_dropWhile [of isspace s] by simp
  next
    from ne r have "dropWhile isspace (rev ?t) \<noteq> []"
      by simp
    then have "\<not> isspace (hd (dropWhile isspace (rev ?t)))"
      by (rule hd_dropWhile)
    moreover have "last ?r = hd (dropWhile isspace (rev ?t))"
      by (simp add: r last_rev)
    ultimately show "\<not> isspace (last ?r)"
      by simp
  qed
  have idem: "Trim isspace ?r = ?r"
  proof (cases "?r = []")
    case True
    have "Trim isspace [] = []"
      by (simp add: Trim_dropWhile)
    with True show ?thesis
      by simp
  next
    case False
    with ends have h: "\<not> isspace (hd ?r)" and l: "\<not> isspace (last ?r)"
      by simp_all
    from False h have "dropWhile isspace ?r = ?r"
      by (simp add: dropWhile_eq_self_iff)
    moreover from False l have "dropWhile isspace (rev ?r) = rev ?r"
      by (simp add: dropWhile_eq_self_iff hd_rev)
    ultimately show ?thesis
      by (simp add: Trim_dropWhile [of isspace ?r])
  qed
  from split pre suf have "\<exists>pre suf. s = pre @ ?r @ suf \<and>
      (\<forall>c \<in> set pre. isspace c) \<and> (\<forall>c \<in> set suf. isspace c)"
    by blast
  with r ends idem show ?thesis
    by blast
qed

theorem Trim_strips_whitespace_witness:
  "Trim isspace_C [CHR '' '', CHR 0x09, CHR ''a'', CHR '' '', CHR ''b'', CHR 0x0A] = ''a b'' \<and>
   Trim isspace_C (Trim isspace_C [CHR '' '', CHR 0x09, CHR ''a'', CHR '' '', CHR ''b'', CHR 0x0A])
     = ''a b''"
proof -
  have v: "Trim isspace_C [CHR '' '', CHR 0x09, CHR ''a'', CHR '' '', CHR ''b'', CHR 0x0A] = ''a b''"
    by (simp add: Trim_def isspace_C_def skip_terminating.simps)
  from Trim_strips_whitespace [of isspace_C "[CHR '' '', CHR 0x09, CHR ''a'', CHR '' '', CHR ''b'', CHR 0x0A]"]
  have "Trim isspace_C (Trim isspace_C [CHR '' '', CHR 0x09, CHR ''a'', CHR '' '', CHR ''b'', CHR 0x0A])
     = Trim isspace_C [CHR '' '', CHR 0x09, CHR ''a'', CHR '' '', CHR ''b'', CHR 0x0A]"
    by blast
  with v show ?thesis by simp
qed

end
